theory Spec2Isabelle
  imports Main "HOL-Library.Sublist"
begin

section \<open>Dates of the platform\<close>

text \<open>
  A JavaScript \<^verbatim>\<open>Date\<close> holds a time value: an integral number of milliseconds since the
  epoch, or NaN for an Invalid Date. The time value is modelled as \<open>int option\<close>, with
  \<open>None\<close> for NaN. The \<^verbatim>\<open>Date\<close> constructor's string parser belongs to the platform and
  not to the application, so every function that constructs a date from a string takes
  the parser as its first argument.
\<close>

type_synonym time_value = "int option"

text \<open>
  The second argument of \<^verbatim>\<open>daysBetween\<close> has type \<^verbatim>\<open>string | Date\<close>: a string is parsed,
  a \<^verbatim>\<open>Date\<close> object is copied with its time value.
\<close>

datatype date_arg = DateString string | DateObject time_value

fun newDate :: "(string \<Rightarrow> time_value) \<Rightarrow> date_arg \<Rightarrow> time_value" where
  "newDate parse (DateString s) = parse s"
| "newDate parse (DateObject t) = t"

definition isValidDate :: "time_value \<Rightarrow> bool" where
  "isValidDate d = (d \<noteq> None)"

text \<open>
  \<^verbatim>\<open>Math.floor((d2.getTime() - d1.getTime()) / 86400000)\<close>: the source computes the
  difference and the quotient in doubles. For two time values less than \<open>2 ^ 53\<close>
  milliseconds apart the difference is exact and the floor of the rounded quotient is
  the integer floor quotient written here; for valid dates further apart the double
  difference is rounded and the source's result can be one more or less. The theorem on
  the value of the quotient has the bound as a hypothesis.
\<close>

definition daysBetween :: "(string \<Rightarrow> time_value) \<Rightarrow> string \<Rightarrow> date_arg \<Rightarrow> int" where
  "daysBetween parse a b =
     (let d1 = newDate parse (DateString a); d2 = newDate parse b
      in if \<not> isValidDate d1 \<or> \<not> isValidDate d2 then 0
         else (case (d1, d2) of
                 (Some t1, Some t2) \<Rightarrow> (t2 - t1) div 86400000
               | _ \<Rightarrow> 0))"

definition formatDate :: "(string \<Rightarrow> time_value) \<Rightarrow> (int \<Rightarrow> string) \<Rightarrow> string option \<Rightarrow> string" where
  "formatDate parse toLocaleDateString d =
     (case d of
        None \<Rightarrow> []
      | Some s \<Rightarrow>
          if s = [] then []
          else (case parse s of
                  Some t \<Rightarrow> toLocaleDateString t
                | None \<Rightarrow> []))"

subsection \<open>A parser for the ISO forms the application itself produces\<close>

text \<open>
  The application writes dates in two forms only: \<^verbatim>\<open>YYYY-MM-DD\<close> (the value of a date
  input field and of \<^verbatim>\<open>todayStr\<close>) and \<^verbatim>\<open>YYYY-MM-DDTHH:mm:ss.sssZ\<close> (the value of
  \<^verbatim>\<open>toISOString\<close>). ECMAScript reads both as UTC. \<open>parseISO\<close> reads exactly these two
  forms and rejects every other string; it serves to evaluate the functions of this
  theory at concrete dates.
\<close>

definition digit :: "char \<Rightarrow> int option" where
  "digit c = (let n = of_char c :: nat in if 48 \<le> n \<and> n \<le> 57 then Some (int n - 48) else None)"

fun number :: "int \<Rightarrow> string \<Rightarrow> int option" where
  "number acc [] = Some acc"
| "number acc (c # cs) =
     (case digit c of None \<Rightarrow> None | Some d \<Rightarrow> number (10 * acc + d) cs)"

definition isLeapYear :: "int \<Rightarrow> bool" where
  "isLeapYear y = (y mod 4 = 0 \<and> (y mod 100 \<noteq> 0 \<or> y mod 400 = 0))"

definition daysInMonth :: "int \<Rightarrow> int \<Rightarrow> int" where
  "daysInMonth y m =
     (if m = 2 then (if isLeapYear y then 29 else 28)
      else if m = 4 \<or> m = 6 \<or> m = 9 \<or> m = 11 then 30 else 31)"

text \<open>Days from 1970-01-01 to the given date of the proleptic Gregorian calendar.\<close>

definition daysFromCivil :: "int \<Rightarrow> int \<Rightarrow> int \<Rightarrow> int" where
  "daysFromCivil y m d =
     (let y' = (if m \<le> 2 then y - 1 else y);
          era = y' div 400;
          yoe = y' - era * 400;
          doy = (153 * (if m > 2 then m - 3 else m + 9) + 2) div 5 + d - 1;
          doe = yoe * 365 + yoe div 4 - yoe div 100 + doy
      in era * 146097 + doe - 719468)"

definition parseDatePart :: "string \<Rightarrow> int option" where
  "parseDatePart s =
     (if length s = 10 \<and> s ! 4 = CHR ''-'' \<and> s ! 7 = CHR ''-'' then
        (case (number 0 (take 4 s), number 0 (take 2 (drop 5 s)), number 0 (drop 8 s)) of
           (Some y, Some m, Some d) \<Rightarrow>
             if 1 \<le> m \<and> m \<le> 12 \<and> 1 \<le> d \<and> d \<le> daysInMonth y m
             then Some (daysFromCivil y m d * 86400000) else None
         | _ \<Rightarrow> None)
      else None)"

definition parseTimePart :: "string \<Rightarrow> int option" where
  "parseTimePart s =
     (if length s = 14 \<and> s ! 0 = CHR ''T'' \<and> s ! 3 = CHR '':'' \<and> s ! 6 = CHR '':''
         \<and> s ! 9 = CHR ''.'' \<and> s ! 13 = CHR ''Z'' then
        (case (number 0 (take 2 (drop 1 s)), number 0 (take 2 (drop 4 s)),
               number 0 (take 2 (drop 7 s)), number 0 (take 3 (drop 10 s))) of
           (Some h, Some mi, Some sec, Some ms) \<Rightarrow>
             if h \<le> 23 \<and> mi \<le> 59 \<and> sec \<le> 59
             then Some (((h * 60 + mi) * 60 + sec) * 1000 + ms) else None
         | _ \<Rightarrow> None)
      else None)"

definition parseISO :: "string \<Rightarrow> time_value" where
  "parseISO s =
     (if length s = 10 then parseDatePart s
      else (case (parseDatePart (take 10 s), parseTimePart (drop 10 s)) of
              (Some d, Some t) \<Rightarrow> Some (d + t)
            | _ \<Rightarrow> None))"

section \<open>Strings\<close>

text \<open>
  A string of the source is a \<open>string\<close> of code units. The application compares strings
  for equality, tests them for emptiness (\<^verbatim>\<open>!s\<close> holds of the empty string) and trims them.
  \<open>isWhiteSpace\<close> lists the white space and line terminators of ECMAScript below code
  unit 256.
\<close>

definition truthy :: "string \<Rightarrow> bool" where
  "truthy s = (s \<noteq> [])"

definition isWhiteSpace :: "char \<Rightarrow> bool" where
  "isWhiteSpace c = ((of_char c :: nat) \<in> {9, 10, 11, 12, 13, 32, 160})"

definition trim :: "string \<Rightarrow> string" where
  "trim s = rev (dropWhile isWhiteSpace (rev (dropWhile isWhiteSpace s)))"

section \<open>Assets\<close>

text \<open>
  The registration form and a stored asset are objects of one shape; they differ in the
  price, which the form holds as the text of an input field (or, in the edit form, as the
  stored number while the field is untouched) and the asset as a number or \<^verbatim>\<open>null\<close>.
\<close>

datatype 'n price_field = PriceText string | PriceNumber 'n

record 'p asset_fields =
  asset_id :: string
  id_code :: string
  name :: string
  brand :: string
  model :: string
  vendor :: string
  serial :: string
  purchase_date :: string
  price :: 'p

type_synonym 'n asset = "'n option asset_fields"
type_synonym 'n asset_form = "'n price_field asset_fields"

text \<open>
  Numbers are the platform's doubles: \<^verbatim>\<open>Number(s)\<close> and the truth value of a number are
  taken as parameters, for any type \<open>'n\<close> of numbers.
\<close>

record 'n js_numbers =
  Number :: "string \<Rightarrow> 'n"
  truthyNumber :: "'n \<Rightarrow> bool"

text \<open>\<^verbatim>\<open>f.price ? Number(f.price) : null\<close>\<close>

definition normalizePrice :: "'n js_numbers \<Rightarrow> 'n price_field \<Rightarrow> 'n option" where
  "normalizePrice N p =
     (case p of
        PriceText s \<Rightarrow> if truthy s then Some (Number N s) else None
      | PriceNumber n \<Rightarrow> if truthyNumber N n then Some n else None)"

text \<open>\<^verbatim>\<open>{ ...f, price: f.price ? Number(f.price) : null }\<close>\<close>

definition payloadOf :: "'n js_numbers \<Rightarrow> 'n asset_form \<Rightarrow> 'n asset" where
  "payloadOf N f =
     \<lparr>asset_id = asset_id f, id_code = id_code f, name = name f, brand = brand f,
      model = model f, vendor = vendor f, serial = serial f,
      purchase_date = purchase_date f, price = normalizePrice N (price f)\<rparr>"

text \<open>
  The form after a reset. The empty object \<^verbatim>\<open>{}\<close> that \<^verbatim>\<open>cancelEdit\<close> and \<^verbatim>\<open>saveEdit\<close>
  store in the edit form is modelled by the same value: the component reads a field of
  it only through \<^verbatim>\<open>!f.x\<close>, which does not tell \<^verbatim>\<open>undefined\<close> from the empty string.
\<close>

definition emptyForm :: "'n asset_form" where
  "emptyForm =
     \<lparr>asset_id = [], id_code = [], name = [], brand = [], model = [], vendor = [],
      serial = [], purchase_date = [], price = PriceText []\<rparr>"

subsection \<open>Mutations of the asset collection\<close>

text \<open>
  Each mutation applies its update to the previous collection and reports \<^verbatim>\<open>true\<close>; the
  model returns the new collection with the reported value.
\<close>

definition createAsset :: "'n asset \<Rightarrow> 'n asset list \<Rightarrow> 'n asset list \<times> bool" where
  "createAsset payload prev = (payload # prev, True)"

definition deleteAsset :: "string \<Rightarrow> 'n asset list \<Rightarrow> 'n asset list \<times> bool" where
  "deleteAsset i prev = (filter (\<lambda>a. asset_id a \<noteq> i) prev, True)"


definition orElse :: "'a option \<Rightarrow> 'a \<Rightarrow> 'a" where
  "orElse p d = (case p of Some v \<Rightarrow> v | None \<Rightarrow> d)"



subsection \<open>The registration component\<close>

datatype asset_error =
    ErrRequired    \<comment> \<open>asset id, id code, name or serial is missing\<close>
  | ErrDupAssetId  \<comment> \<open>the asset id is taken\<close>
  | ErrDupIdCode   \<comment> \<open>the id code is taken\<close>
  | ErrDupSerial   \<comment> \<open>the serial is taken\<close>

text \<open>
  The state of the component: the reference lists and the asset collection it receives
  from the application with their setters, and its own state variables. The error text
  is \<open>None\<close> for the empty string and \<open>Some e\<close> for the message of \<open>e\<close>. A model entry
  \<^verbatim>\<open>{brand, name}\<close> is the pair of the two.

  A handler reads the state variables and the collection of the render it was created
  in, and its setters act on the state of the moment of the call. \<open>submit\<close> takes the
  two apart: the render's state \<open>view\<close> and the current state \<open>st\<close>. The other handlers
  are modelled as called from a render of the current state.
\<close>

record 'n assets_state =
  brands :: "string list"
  models :: "(string \<times> string) list"
  vendors :: "string list"
  assets :: "'n asset list"
  form :: "'n asset_form"
  err :: "asset_error option"
  editingId :: "string option"
  editForm :: "'n asset_form"
  addingBrand :: bool
  newBrand :: string
  addingModel :: bool
  newModel :: string
  addingVendor :: bool
  newVendor :: string

text \<open>\<^verbatim>\<open>if (editingId)\<close>: \<^verbatim>\<open>null\<close> and the empty string are false.\<close>

definition isEditing :: "'n assets_state \<Rightarrow> bool" where
  "isEditing st = (case editingId st of None \<Rightarrow> False | Some i \<Rightarrow> truthy i)"

definition confirmAddBrand :: "'n assets_state \<Rightarrow> 'n assets_state" where
  "confirmAddBrand st =
     (let v = trim (newBrand st)
      in if \<not> truthy v then st
         else
           let st1 = (if v \<notin> set (brands st) then st\<lparr>brands := brands st @ [v]\<rparr> else st);
               st2 = (if isEditing st
                      then st1\<lparr>editForm := (editForm st)\<lparr>brand := v, model := []\<rparr>\<rparr>
                      else st1\<lparr>form := (form st)\<lparr>brand := v, model := []\<rparr>\<rparr>)
           in st2\<lparr>newBrand := [], addingBrand := False\<rparr>)"

text \<open>\<^verbatim>\<open>editingId ? editForm.brand : form.brand\<close>\<close>

definition currentBrand :: "'n assets_state \<Rightarrow> string" where
  "currentBrand st = (if isEditing st then brand (editForm st) else brand (form st))"

text \<open>Without a current brand the source shows an alert and changes nothing.\<close>

definition confirmAddModel :: "'n assets_state \<Rightarrow> 'n assets_state" where
  "confirmAddModel st =
     (let cb = currentBrand st
      in if \<not> truthy cb then st
         else
           let v = trim (newModel st)
           in if \<not> truthy v then st
              else
                let st1 = (if find (\<lambda>m. snd m = v \<and> fst m = cb) (models st) = None
                           then st\<lparr>models := models st @ [(cb, v)]\<rparr> else st);
                    st2 = (if isEditing st
                           then st1\<lparr>editForm := (editForm st)\<lparr>model := v\<rparr>\<rparr>
                           else st1\<lparr>form := (form st)\<lparr>model := v\<rparr>\<rparr>)
                in st2\<lparr>newModel := [], addingModel := False\<rparr>)"

definition confirmAddVendor :: "'n assets_state \<Rightarrow> 'n assets_state" where
  "confirmAddVendor st =
     (let v = trim (newVendor st)
      in if \<not> truthy v then st
         else
           let st1 = (if v \<notin> set (vendors st) then st\<lparr>vendors := vendors st @ [v]\<rparr> else st);
               st2 = (if isEditing st
                      then st1\<lparr>editForm := (editForm st)\<lparr>vendor := v\<rparr>\<rparr>
                      else st1\<lparr>form := (form st)\<lparr>vendor := v\<rparr>\<rparr>)
           in st2\<lparr>newVendor := [], addingVendor := False\<rparr>)"

definition missingRequired :: "'p asset_fields \<Rightarrow> bool" where
  "missingRequired f =
     (\<not> truthy (asset_id f) \<or> \<not> truthy (id_code f) \<or> \<not> truthy (name f) \<or> \<not> truthy (serial f))"

text \<open>
  \<^verbatim>\<open>submit\<close> tests the form and the collection of its render, \<open>form view\<close> and
  \<open>assets view\<close>; \<^verbatim>\<open>createAsset\<close> prepends the payload to the collection of the moment,
  \<open>assets st\<close>, the argument \<^verbatim>\<open>prev\<close> of the updater.
\<close>

definition submit :: "'n js_numbers \<Rightarrow> 'n assets_state \<Rightarrow> 'n assets_state \<Rightarrow> 'n assets_state" where
  "submit N view st =
     (let st0 = st\<lparr>err := None\<rparr>; f = form view
      in if missingRequired f then st0\<lparr>err := Some ErrRequired\<rparr>
         else if list_ex (\<lambda>a. asset_id a = asset_id f) (assets view) then st0\<lparr>err := Some ErrDupAssetId\<rparr>
         else if list_ex (\<lambda>a. id_code a = id_code f) (assets view) then st0\<lparr>err := Some ErrDupIdCode\<rparr>
         else if list_ex (\<lambda>a. serial a = serial f) (assets view) then st0\<lparr>err := Some ErrDupSerial\<rparr>
         else
           let (assets', ok) = createAsset (payloadOf N f) (assets st);
               st1 = st0\<lparr>assets := assets'\<rparr>
           in if ok then st1\<lparr>form := emptyForm\<rparr> else st1)"

text \<open>
  A registration: \<^verbatim>\<open>submit\<close> is called from a render whose form holds \<open>f\<close> and whose
  collection is \<open>shown\<close>, in the state \<open>st\<close>. \<open>registerAll\<close> makes a sequence of such
  calls, each given by its form and the collection its render shows.
\<close>

definition registerAsset ::
  "'n js_numbers \<Rightarrow> 'n asset_form \<Rightarrow> 'n asset list \<Rightarrow> 'n assets_state \<Rightarrow> 'n assets_state" where
  "registerAsset N f shown st = submit N (st\<lparr>form := f, assets := shown\<rparr>) st"

fun registerAll ::
  "'n js_numbers \<Rightarrow> ('n asset_form \<times> 'n asset list) list \<Rightarrow> 'n assets_state \<Rightarrow> 'n assets_state" where
  "registerAll N [] st = st"
| "registerAll N ((f, shown) # calls) st = registerAll N calls (registerAsset N f shown st)"

text \<open>
  Every call of the sequence is made from a render of the state it is made in: the
  collection its render shows is the collection of that moment.
\<close>

fun rendered ::
  "'n js_numbers \<Rightarrow> ('n asset_form \<times> 'n asset list) list \<Rightarrow> 'n assets_state \<Rightarrow> bool" where
  "rendered N [] st = True"
| "rendered N ((f, shown) # calls) st =
     (shown = assets st \<and> rendered N calls (registerAsset N f shown st))"





text \<open>The three keys of the collection are each pairwise distinct.\<close>

definition keysDistinct :: "'p asset_fields list \<Rightarrow> bool" where
  "keysDistinct as =
     (distinct (map asset_id as) \<and> distinct (map id_code as) \<and> distinct (map serial as))"

text \<open>Decimal numerals as numbers, with \<open>None\<close> for NaN: a platform to evaluate with.\<close>

definition decimalNumbers :: "int option js_numbers" where
  "decimalNumbers =
     \<lparr>Number = number 0, truthyNumber = (\<lambda>n. n \<noteq> None \<and> n \<noteq> Some 0)\<rparr>"

section \<open>Borrow records\<close>

text \<open>
  \<^verbatim>\<open>end_date\<close> and \<^verbatim>\<open>returned_at\<close> are a string or \<^verbatim>\<open>null\<close>; the other fields are
  strings. The fields \<^verbatim>\<open>id\<close> and \<^verbatim>\<open>asset_id\<close> are \<open>b_id\<close> and \<open>b_asset_id\<close> here.
\<close>

record borrow =
  b_id :: string
  b_asset_id :: string
  asset_name :: string
  peripherals :: string
  lender_name :: string
  borrower_name :: string
  borrower_dept :: string
  start_date :: string
  end_date :: "string option"
  returned_at :: "string option"
  borrower_sign :: string
  created_at :: string

record borrow_patch =
  patch_b_id :: "string option"
  patch_b_asset_id :: "string option"
  patch_asset_name :: "string option"
  patch_peripherals :: "string option"
  patch_lender_name :: "string option"
  patch_borrower_name :: "string option"
  patch_borrower_dept :: "string option"
  patch_start_date :: "string option"
  patch_end_date :: "string option option"
  patch_returned_at :: "string option option"
  patch_borrower_sign :: "string option"
  patch_created_at :: "string option"

definition mergeBorrow :: "borrow \<Rightarrow> borrow_patch \<Rightarrow> borrow" where
  "mergeBorrow b p =
     \<lparr>b_id = orElse (patch_b_id p) (b_id b),
      b_asset_id = orElse (patch_b_asset_id p) (b_asset_id b),
      asset_name = orElse (patch_asset_name p) (asset_name b),
      peripherals = orElse (patch_peripherals p) (peripherals b),
      lender_name = orElse (patch_lender_name p) (lender_name b),
      borrower_name = orElse (patch_borrower_name p) (borrower_name b),
      borrower_dept = orElse (patch_borrower_dept p) (borrower_dept b),
      start_date = orElse (patch_start_date p) (start_date b),
      end_date = orElse (patch_end_date p) (end_date b),
      returned_at = orElse (patch_returned_at p) (returned_at b),
      borrower_sign = orElse (patch_borrower_sign p) (borrower_sign b),
      created_at = orElse (patch_created_at p) (created_at b)\<rparr>"

definition createBorrow :: "borrow \<Rightarrow> borrow list \<Rightarrow> borrow list \<times> bool" where
  "createBorrow record prev = (record # prev, True)"

definition updateBorrow :: "string \<Rightarrow> borrow_patch \<Rightarrow> borrow list \<Rightarrow> borrow list \<times> bool" where
  "updateBorrow i patch prev =
     (map (\<lambda>b. if b_id b = i then mergeBorrow b patch else b) prev, True)"

text \<open>\<open>ts\<close> is \<^verbatim>\<open>new Date().toISOString()\<close>, the time of the call.\<close>

definition returnBorrow :: "string \<Rightarrow> string \<Rightarrow> borrow list \<Rightarrow> borrow list \<times> bool" where
  "returnBorrow ts i prev =
     (map (\<lambda>b. if b_id b = i then b\<lparr>returned_at := Some ts\<rparr> else b) prev, True)"

subsection \<open>Active and overdue loans\<close>

text \<open>\<^verbatim>\<open>!b.returned_at\<close> holds of \<^verbatim>\<open>null\<close> and of the empty string.\<close>

definition notReturned :: "borrow \<Rightarrow> bool" where
  "notReturned b = (case returned_at b of None \<Rightarrow> True | Some ts \<Rightarrow> \<not> truthy ts)"

definition active :: "borrow list \<Rightarrow> borrow list" where
  "active borrows = filter notReturned borrows"

definition activeIds :: "borrow list \<Rightarrow> string list" where
  "activeIds borrows = map b_asset_id (active borrows)"

definition borrowedCount :: "borrow list \<Rightarrow> nat" where
  "borrowedCount borrows = card (set (map b_asset_id (active borrows)))"

definition availableCount :: "'n asset list \<Rightarrow> borrow list \<Rightarrow> int" where
  "availableCount as borrows = max (int (length as) - int (borrowedCount borrows)) 0"

text \<open>
  \<^verbatim>\<open>daysBetween(b.start_date)\<close>: the second argument defaults to \<^verbatim>\<open>new Date()\<close>, the valid
  date of the current instant \<open>now\<close>.
\<close>

definition daysSince :: "(string \<Rightarrow> time_value) \<Rightarrow> int \<Rightarrow> string \<Rightarrow> int" where
  "daysSince parse now a = daysBetween parse a (DateObject (Some now))"

definition overdueCount :: "(string \<Rightarrow> time_value) \<Rightarrow> int \<Rightarrow> borrow list \<Rightarrow> nat" where
  "overdueCount parse now borrows =
     length (filter (\<lambda>b. daysSince parse now (start_date b) \<ge> 14) (active borrows))"

text \<open>The two lists of the dashboard, computed from the active loans it is given.\<close>

definition overdue :: "(string \<Rightarrow> time_value) \<Rightarrow> int \<Rightarrow> borrow list \<Rightarrow> borrow list" where
  "overdue parse now act = filter (\<lambda>b. daysSince parse now (start_date b) \<ge> 14) act"

definition normal :: "(string \<Rightarrow> time_value) \<Rightarrow> int \<Rightarrow> borrow list \<Rightarrow> borrow list" where
  "normal parse now act = filter (\<lambda>b. daysSince parse now (start_date b) < 14) act"

subsection \<open>The department list of the borrow form\<close>

record borrow_form =
  form_peripherals :: string
  form_lender_name :: string
  form_start_date :: string
  form_end_date :: string
  form_borrower_name :: string
  form_borrower_dept :: string

record borrow_state =
  depts :: "string list"
  borrowForm :: borrow_form
  addingDept :: bool
  newDept :: string

definition confirmAddDept :: "borrow_state \<Rightarrow> borrow_state" where
  "confirmAddDept st =
     (let v = trim (newDept st)
      in if \<not> truthy v then st
         else
           let st1 = (if v \<notin> set (depts st) then st\<lparr>depts := depts st @ [v]\<rparr> else st)
           in st1\<lparr>borrowForm := (borrowForm st)\<lparr>form_borrower_dept := v\<rparr>,
                  newDept := [], addingDept := False\<rparr>)"

section \<open>Reports\<close>

text \<open>
  \<^verbatim>\<open>sd < new Date(from)\<close> and \<^verbatim>\<open>sd > new Date(to)\<close> compare the time values as numbers;
  a comparison with NaN is false.
\<close>

definition dateLess :: "time_value \<Rightarrow> time_value \<Rightarrow> bool" where
  "dateLess x y = (case (x, y) of (Some t, Some u) \<Rightarrow> t < u | _ \<Rightarrow> False)"

definition keeps :: "(string \<Rightarrow> time_value) \<Rightarrow> string \<Rightarrow> string \<Rightarrow> string \<Rightarrow> borrow \<Rightarrow> bool" where
  "keeps parse from to dept r =
     (let sd = parse (start_date r)
      in if truthy from \<and> dateLess sd (parse from) then False
         else if truthy to \<and> dateLess (parse to) sd then False
         else if truthy dept \<and> borrower_dept r \<noteq> dept then False
         else True)"

definition filtered :: "(string \<Rightarrow> time_value) \<Rightarrow> borrow list \<Rightarrow> string \<Rightarrow> string \<Rightarrow> string \<Rightarrow> borrow list" where
  "filtered parse borrows from to dept = filter (keeps parse from to dept) borrows"

subsection \<open>Rows of a report\<close>

text \<open>
  The platform of a report: the date parser, the two locale formatters and the instant
  of the export.
\<close>

record report_platform =
  Date_parse :: "string \<Rightarrow> time_value"
  toLocaleDateString :: "int \<Rightarrow> string"
  toLocaleString :: "int \<Rightarrow> string"
  now :: int

datatype cell = Text string | Days int | Img string

definition dateCell :: "report_platform \<Rightarrow> string option \<Rightarrow> cell" where
  "dateCell P d = Text (formatDate (Date_parse P) (toLocaleDateString P) d)"

text \<open>
  \<^verbatim>\<open>r.returned_at ? daysBetween(r.start_date, r.returned_at) : daysBetween(r.start_date)\<close>
\<close>

definition duration :: "report_platform \<Rightarrow> borrow \<Rightarrow> int" where
  "duration P r =
     (case returned_at r of
        Some ts \<Rightarrow>
          if truthy ts then daysBetween (Date_parse P) (start_date r) (DateString ts)
          else daysSince (Date_parse P) (now P) (start_date r)
      | None \<Rightarrow> daysSince (Date_parse P) (now P) (start_date r))"

text \<open>The nine columns the two exports share; the tenth is the signature.\<close>

definition columns :: "report_platform \<Rightarrow> borrow \<Rightarrow> cell list" where
  "columns P r =
     [Text (b_asset_id r), Text (asset_name r), Text (borrower_name r),
      Text (borrower_dept r), Text (lender_name r),
      dateCell P (Some (start_date r)),
      (case end_date r of Some e \<Rightarrow> if truthy e then dateCell P (Some e) else Text [] | None \<Rightarrow> Text []),
      (case returned_at r of Some ts \<Rightarrow> if truthy ts then dateCell P (Some ts) else Text [] | None \<Rightarrow> Text []),
      Days (duration P r)]"

definition sheetRow :: "report_platform \<Rightarrow> borrow \<Rightarrow> cell list" where
  "sheetRow P r = columns P r @ [Text []]"

definition printRow :: "report_platform \<Rightarrow> borrow \<Rightarrow> cell list" where
  "printRow P r =
     columns P r @ [if truthy (borrower_sign r) then Img (borrower_sign r) else Text ''-'']"

subsection \<open>The spreadsheet export\<close>

text \<open>
  The notes the export shows, the outcome of loading the spreadsheet library (the load
  fails, the library has no \<^verbatim>\<open>utils\<close>, or it is usable and building the workbook succeeds
  or throws), and the file written: a workbook, or the fallback table, each with the
  organisation's name, the time stamp and the data rows under the fixed header.
\<close>

datatype xl_note =
    NoteEmpty | NoteLoading | NoteLoadFailed | NoteUnusable | NoteBuildFailed | NoteDone nat

datatype xlsx_library = LoadFails | NoUtils | Usable bool

datatype export_file =
    Workbook string string "cell list list"
  | FallbackTable string string "cell list list"

record report_state =
  fromDate :: string
  toDate :: string
  dept :: string
  xlLoading :: bool
  xlNote :: "xl_note option"

definition filteredOf :: "report_platform \<Rightarrow> borrow list \<Rightarrow> report_state \<Rightarrow> borrow list" where
  "filteredOf P borrows st = filtered (Date_parse P) borrows (fromDate st) (toDate st) (dept st)"

definition exportFallbackXLS :: "report_platform \<Rightarrow> string \<Rightarrow> borrow list \<Rightarrow> export_file" where
  "exportFallbackXLS P orgName rows =
     FallbackTable orgName (toLocaleString P (now P)) (map (sheetRow P) rows)"

text \<open>
  The state when the export has finished, before the timers clear the note, and the file
  it wrote, if any.
\<close>

definition exportXLSX ::
  "report_platform \<Rightarrow> xlsx_library \<Rightarrow> string \<Rightarrow> borrow list \<Rightarrow> report_state
     \<Rightarrow> report_state \<times> export_file option" where
  "exportXLSX P lib orgName borrows st =
     (let rows = filteredOf P borrows st
      in if xlLoading st then (st, None)
         else if length rows = 0 then (st\<lparr>xlNote := Some NoteEmpty\<rparr>, None)
         else (case lib of
                 LoadFails \<Rightarrow>
                   (st\<lparr>xlLoading := False, xlNote := Some NoteLoadFailed\<rparr>,
                    Some (exportFallbackXLS P orgName rows))
               | NoUtils \<Rightarrow>
                   (st\<lparr>xlLoading := False, xlNote := Some NoteUnusable\<rparr>,
                    Some (exportFallbackXLS P orgName rows))
               | Usable ok \<Rightarrow>
                   if ok
                   then (st\<lparr>xlLoading := False, xlNote := Some (NoteDone (length rows))\<rparr>,
                         Some (Workbook orgName (toLocaleString P (now P)) (map (sheetRow P) rows)))
                   else (st\<lparr>xlLoading := False, xlNote := Some NoteBuildFailed\<rparr>,
                         Some (exportFallbackXLS P orgName rows))))"

subsection \<open>The printable export\<close>

text \<open>
  The body of the printed table is the concatenation of the rows' markup, or the single
  row that reports no data when that string is empty; a row's markup is never empty, so
  the string is empty exactly when there is no row.
\<close>

datatype print_row = DataRow "cell list" | NoDataRow

record document =
  doc_logo :: "string option"
  doc_orgName :: string
  doc_stamp :: string
  doc_body :: "print_row list"

datatype print_error = PopupBlocked

definition printPDF ::
  "report_platform \<Rightarrow> bool \<Rightarrow> string \<Rightarrow> string \<Rightarrow> borrow list \<Rightarrow> report_state
     \<Rightarrow> print_error + document" where
  "printPDF P popup orgName reportLogo borrows st =
     (let rows = map (\<lambda>r. DataRow (printRow P r)) (filteredOf P borrows st);
          logo = (if truthy reportLogo then Some reportLogo else None);
          html = \<lparr>doc_logo = logo, doc_orgName = orgName,
                  doc_stamp = toLocaleString P (now P),
                  doc_body = (if rows = [] then [NoDataRow] else rows)\<rparr>
      in if \<not> popup then Inl PopupBlocked else Inr html)"

section \<open>The specification's calendar days\<close>

text \<open>
  The specification describes the elapsed days as a subtraction of calendar dates, both
  instants first reduced to their local date. \<open>localDate\<close> is the day number of an instant
  in a zone \<open>offset\<close> milliseconds east of UTC, and \<open>calendarDays\<close> the difference of the
  two day numbers.
\<close>

definition localDate :: "int \<Rightarrow> int \<Rightarrow> int" where
  "localDate offset t = (t + offset) div 86400000"

definition calendarDays :: "int \<Rightarrow> int \<Rightarrow> int \<Rightarrow> int" where
  "calendarDays offset t1 t2 = localDate offset t2 - localDate offset t1"

text \<open>
  The specification's filter, in its words: a record is kept when its start date is not
  before the lower bound, if there is one, and not after the upper bound, if there is
  one, and its department is the selected one, if one is selected. An absent bound or
  department is the empty string of the input field.
\<close>

definition dateAtMost :: "time_value \<Rightarrow> time_value \<Rightarrow> bool" where
  "dateAtMost x y = (case (x, y) of (Some t, Some u) \<Rightarrow> t \<le> u | _ \<Rightarrow> False)"

definition keepsSpec :: "(string \<Rightarrow> time_value) \<Rightarrow> string \<Rightarrow> string \<Rightarrow> string \<Rightarrow> borrow \<Rightarrow> bool" where
  "keepsSpec parse from to department r =
     ((from = [] \<or> dateAtMost (parse from) (parse (start_date r))) \<and>
      (to = [] \<or> dateAtMost (parse (start_date r)) (parse to)) \<and>
      (department = [] \<or> borrower_dept r = department))"

section \<open>Sample data\<close>

text \<open>Concrete forms, assets, records and states at which the theorems are evaluated.\<close>

definition sampleForm :: "string \<Rightarrow> string \<Rightarrow> string \<Rightarrow> int option asset_form" where
  "sampleForm i c s =
     \<lparr>asset_id = i, id_code = c, name = ''Infusion pump'', brand = ''GE'', model = ''X1'',
      vendor = ''Acme'', serial = s, purchase_date = ''2024-01-01'', price = PriceText ''1200''\<rparr>"

definition sampleAsset :: "string \<Rightarrow> string \<Rightarrow> string \<Rightarrow> int option asset" where
  "sampleAsset i c s = payloadOf decimalNumbers (sampleForm i c s)"

definition initialState :: "int option assets_state" where
  "initialState =
     \<lparr>brands = [], models = [], vendors = [], assets = [], form = emptyForm, err = None,
      editingId = None, editForm = emptyForm, addingBrand = False, newBrand = [],
      addingModel = False, newModel = [], addingVendor = False, newVendor = []\<rparr>"

definition twoAssets :: "int option assets_state" where
  "twoAssets = initialState\<lparr>assets := [sampleAsset ''A2'' ''C2'' ''S2'', sampleAsset ''A1'' ''C1'' ''S1'']\<rparr>"




text \<open>Every reference list holds one entry, and the same entry is typed in again.\<close>

definition quickAdd :: "int option assets_state" where
  "quickAdd =
     initialState\<lparr>brands := [''GE''], models := [(''GE'', ''X1'')], vendors := [''Acme''],
       form := sampleForm ''A1'' ''C1'' ''S1'',
       newBrand := '' GE '', newModel := ''X1 '', newVendor := ''Acme''\<rparr>"

definition quickAddDept :: borrow_state where
  "quickAddDept =
     \<lparr>depts = [''ICU''],
      borrowForm = \<lparr>form_peripherals = [], form_lender_name = [], form_start_date = ''2024-01-01'',
                    form_end_date = [], form_borrower_name = [], form_borrower_dept = []\<rparr>,
      addingDept = True, newDept = '' ICU''\<rparr>"

definition sampleBorrow :: "string \<Rightarrow> string \<Rightarrow> string \<Rightarrow> string option \<Rightarrow> borrow" where
  "sampleBorrow i d sd ra =
     \<lparr>b_id = i, b_asset_id = ''A1'', asset_name = ''Infusion pump'', peripherals = [],
      lender_name = ''Lek'', borrower_name = ''Nok'', borrower_dept = d, start_date = sd,
      end_date = None, returned_at = ra, borrower_sign = ''data:image/png;base64,AAAA'',
      created_at = ''2023-12-01T08:00:00.000Z''\<rparr>"

text \<open>
  Three loans seen at 2024-01-14T20:00:00Z (time value 1705262400000): one open for twenty
  days, one open for three days, one of six weeks ago that has been returned.
\<close>

definition sampleBorrows :: "borrow list" where
  "sampleBorrows =
     [sampleBorrow ''b3'' ''ER'' ''2024-01-11'' None,
      sampleBorrow ''b2'' ''ICU'' ''2023-12-25'' None,
      sampleBorrow ''b1'' ''ICU'' ''2023-12-01'' (Some ''2023-12-05T09:30:00.000Z'')]"

text \<open>The patch of an edit in the return list that retypes the borrower's name only.\<close>

definition renameBorrower :: borrow_patch where
  "renameBorrower =
     \<lparr>patch_b_id = None, patch_b_asset_id = None, patch_asset_name = None,
      patch_peripherals = None, patch_lender_name = None, patch_borrower_name = Some ''Noi'',
      patch_borrower_dept = None, patch_start_date = None, patch_end_date = None,
      patch_returned_at = None, patch_borrower_sign = None, patch_created_at = None\<rparr>"

definition samplePlatform :: report_platform where
  "samplePlatform =
     \<lparr>Date_parse = parseISO, toLocaleDateString = (\<lambda>t. ''date''),
      toLocaleString = (\<lambda>t. ''stamp''), now = 1705262400000\<rparr>"

definition sampleReport :: "string \<Rightarrow> string \<Rightarrow> string \<Rightarrow> report_state" where
  "sampleReport from to department =
     \<lparr>fromDate = from, toDate = to, dept = department, xlLoading = False, xlNote = None\<rparr>"

section \<open>Registration keeps the keys unique\<close>

lemma submit_rejects:
  assumes "missingRequired (form view) \<or>
           (\<exists>a\<in>set (assets view). asset_id a = asset_id (form view) \<or>
              id_code a = id_code (form view) \<or> serial a = serial (form view))"
  shows "assets (submit N view st) = assets st \<and> err (submit N view st) \<noteq> None"
  using assms by (auto simp: submit_def Let_def list_ex_iff createAsset_def)

lemma submit_accepts:
  assumes "\<not> missingRequired (form view)"
    and "\<forall>a\<in>set (assets view). asset_id a \<noteq> asset_id (form view) \<and>
           id_code a \<noteq> id_code (form view) \<and> serial a \<noteq> serial (form view)"
  shows "submit N view st =
         st\<lparr>err := None, assets := payloadOf N (form view) # assets st, form := emptyForm\<rparr>"
  using assms by (auto simp: submit_def Let_def list_ex_iff createAsset_def)

lemma submit_assets_cases:
  "assets (submit N view st) = assets st \<or>
   (assets (submit N view st) = payloadOf N (form view) # assets st \<and>
    (\<forall>a\<in>set (assets view). asset_id a \<noteq> asset_id (form view) \<and>
       id_code a \<noteq> id_code (form view) \<and> serial a \<noteq> serial (form view)))"
  by (auto simp: submit_def Let_def list_ex_iff createAsset_def)

lemma payloadOf_keys:
  "asset_id (payloadOf N f) = asset_id f" "id_code (payloadOf N f) = id_code f"
  "serial (payloadOf N f) = serial f" "name (payloadOf N f) = name f"
  by (simp_all add: payloadOf_def)

lemma submit_keysDistinct:
  assumes "keysDistinct (assets st)" and "assets view = assets st"
  shows "keysDistinct (assets (submit N view st))"
proof -
  from submit_assets_cases [of N view st] show ?thesis
  proof
    assume "assets (submit N view st) = assets st"
    with assms show ?thesis by simp
  next
    assume "assets (submit N view st) = payloadOf N (form view) # assets st \<and>
      (\<forall>a\<in>set (assets view). asset_id a \<noteq> asset_id (form view) \<and>
         id_code a \<noteq> id_code (form view) \<and> serial a \<noteq> serial (form view))"
    with assms show ?thesis
      by (auto simp: keysDistinct_def payloadOf_keys)
  qed
qed

lemma registerAsset_keysDistinct:
  "keysDistinct (assets st) \<Longrightarrow> keysDistinct (assets (registerAsset N f (assets st) st))"
  unfolding registerAsset_def by (rule submit_keysDistinct) simp_all

lemma registerAll_keysDistinct:
  "keysDistinct (assets st) \<Longrightarrow> rendered N calls st \<Longrightarrow>
   keysDistinct (assets (registerAll N calls st))"
proof (induction calls arbitrary: st)
  case Nil
  then show ?case by simp
next
  case (Cons c calls)
  obtain f shown where c: "c = (f, shown)" by (cases c)
  have "shown = assets st \<and> rendered N calls (registerAsset N f shown st)"
    using Cons.prems(2) unfolding c rendered.simps .
  then have sh: "shown = assets st" and r: "rendered N calls (registerAsset N f shown st)"
    by blast+
  from Cons.prems(1) sh have "keysDistinct (assets (registerAsset N f shown st))"
    by (simp add: registerAsset_keysDistinct)
  from Cons.IH [OF this r] c show ?case by simp
qed

text \<open>
  C1, as amended. After any sequence of registrations, each made from a render of the
  state it is made in, that starts from a collection whose asset ids, id codes and
  serials are each pairwise distinct, they are still pairwise distinct. A registration
  in any state \<open>s\<close> whose form lacks the asset id, the id code, the name or the serial,
  or repeats the asset id, the id code or the serial of an asset of the collection its
  render shows, leaves the collection as it was and sets the error message.
\<close>

theorem registerAsset_keeps_keys_unique:
  assumes "keysDistinct (assets st)" and "rendered N calls st"
  shows "keysDistinct (assets (registerAll N calls st)) \<and>
         (missingRequired f \<or>
          (\<exists>a\<in>set shown. asset_id a = asset_id f \<or> id_code a = id_code f \<or> serial a = serial f)
          \<longrightarrow> assets (registerAsset N f shown s) = assets s \<and>
              err (registerAsset N f shown s) \<noteq> None)"
proof
  show "keysDistinct (assets (registerAll N calls st))"
    using assms by (rule registerAll_keysDistinct)
next
  show "missingRequired f \<or>
          (\<exists>a\<in>set shown. asset_id a = asset_id f \<or> id_code a = id_code f \<or> serial a = serial f)
          \<longrightarrow> assets (registerAsset N f shown s) = assets s \<and>
              err (registerAsset N f shown s) \<noteq> None"
    using submit_rejects [of "s\<lparr>form := f, assets := shown\<rparr>" N s]
    by (simp add: registerAsset_def)
qed

text \<open>
  Three registrations from the empty collection, each from a render of the collection
  before it, the second with the serial of the first: two assets are stored. A fourth
  form with a taken id code is rejected.
\<close>

theorem registerAsset_keeps_keys_unique_witness:
  "keysDistinct (assets (registerAll decimalNumbers
      [(sampleForm ''A1'' ''C1'' ''S1'', []),
       (sampleForm ''A2'' ''C2'' ''S1'', [sampleAsset ''A1'' ''C1'' ''S1'']),
       (sampleForm ''A2'' ''C2'' ''S2'', [sampleAsset ''A1'' ''C1'' ''S1''])]
      initialState))
   \<and> map asset_id (assets (registerAll decimalNumbers
      [(sampleForm ''A1'' ''C1'' ''S1'', []),
       (sampleForm ''A2'' ''C2'' ''S1'', [sampleAsset ''A1'' ''C1'' ''S1'']),
       (sampleForm ''A2'' ''C2'' ''S2'', [sampleAsset ''A1'' ''C1'' ''S1''])]
      initialState)) = [''A2'', ''A1'']
   \<and> assets (registerAsset decimalNumbers (sampleForm ''A3'' ''C1'' ''S3'') (assets twoAssets) twoAssets)
     = assets twoAssets
   \<and> err (registerAsset decimalNumbers (sampleForm ''A3'' ''C1'' ''S3'') (assets twoAssets) twoAssets)
     \<noteq> None"
proof -
  have h: "keysDistinct (assets initialState)"
    by (simp add: initialState_def keysDistinct_def)
  have r: "rendered decimalNumbers
      [(sampleForm ''A1'' ''C1'' ''S1'', []),
       (sampleForm ''A2'' ''C2'' ''S1'', [sampleAsset ''A1'' ''C1'' ''S1'']),
       (sampleForm ''A2'' ''C2'' ''S2'', [sampleAsset ''A1'' ''C1'' ''S1''])]
      initialState"
    by code_simp
  have d: "missingRequired (sampleForm ''A3'' ''C1'' ''S3'') \<or>
     (\<exists>a\<in>set (assets twoAssets). asset_id a = asset_id (sampleForm ''A3'' ''C1'' ''S3'') \<or>
        id_code a = id_code (sampleForm ''A3'' ''C1'' ''S3'') \<or>
        serial a = serial (sampleForm ''A3'' ''C1'' ''S3''))"
    by code_simp
  have e: "map asset_id (assets (registerAll decimalNumbers
      [(sampleForm ''A1'' ''C1'' ''S1'', []),
       (sampleForm ''A2'' ''C2'' ''S1'', [sampleAsset ''A1'' ''C1'' ''S1'']),
       (sampleForm ''A2'' ''C2'' ''S2'', [sampleAsset ''A1'' ''C1'' ''S1''])]
      initialState)) = [''A2'', ''A1'']"
    by code_simp
  from registerAsset_keeps_keys_unique
    [OF h r, of "sampleForm ''A3'' ''C1'' ''S3''" "assets twoAssets" twoAssets] d e
  show ?thesis by blast
qed

text \<open>
  The claim as stated fails. Two submits of one form from one render of the empty
  collection: the second still tests the empty collection, and the asset is stored
  twice.
\<close>

theorem registerAsset_same_render_duplicates:
  "keysDistinct (assets initialState)
   \<and> map asset_id (assets (registerAll decimalNumbers
        [(sampleForm ''A1'' ''C1'' ''S1'', []), (sampleForm ''A1'' ''C1'' ''S1'', [])]
        initialState)) = [''A1'', ''A1'']
   \<and> err (registerAll decimalNumbers
        [(sampleForm ''A1'' ''C1'' ''S1'', []), (sampleForm ''A1'' ''C1'' ''S1'', [])]
        initialState) = None
   \<and> \<not> keysDistinct (assets (registerAll decimalNumbers
        [(sampleForm ''A1'' ''C1'' ''S1'', []), (sampleForm ''A1'' ''C1'' ''S1'', [])]
        initialState))"
  by code_simp

section \<open>Saving an edited asset\<close>








section \<open>Elapsed days\<close>

lemma daysBetween_valid:
  "parse a = Some t1 \<Longrightarrow> newDate parse b = Some t2 \<Longrightarrow>
   daysBetween parse a b = (t2 - t1) div 86400000"
  by (simp add: daysBetween_def isValidDate_def Let_def)

lemma daysBetween_next_day:
  "daysBetween parseISO ''2024-01-01'' (DateString ''2024-01-02'') = 1"
  by code_simp

text \<open>
  C8. When the first date or the second does not parse, the elapsed days are 0. The
  function has a value at every pair of arguments and no error result.
\<close>

theorem daysBetween_unparseable:
  "parse a = None \<or> newDate parse b = None \<Longrightarrow> daysBetween parse a b = 0"
  by (auto simp: daysBetween_def isValidDate_def Let_def)

text \<open>An unparseable start, then an unparseable reference string and an Invalid Date object.\<close>

theorem daysBetween_unparseable_witness:
  "daysBetween parseISO ''invalid-date'' (DateObject (Some 1705262400000)) = 0
   \<and> daysBetween parseISO ''2024-01-01'' (DateString ''soon'') = 0
   \<and> daysBetween parseISO ''2024-01-01'' (DateObject None) = 0"
proof -
  have a: "parseISO ''invalid-date'' = None \<or> newDate parseISO (DateObject (Some 1705262400000)) = None"
    by code_simp
  have b: "parseISO ''2024-01-01'' = None \<or> newDate parseISO (DateString ''soon'') = None"
    by code_simp
  have c: "parseISO ''2024-01-01'' = None \<or> newDate parseISO (DateObject None) = None"
    by simp
  from daysBetween_unparseable [OF a] daysBetween_unparseable [OF b] daysBetween_unparseable [OF c]
  show ?thesis by blast
qed

text \<open>
  C3, as amended. For two dates that parse, to time values \<open>t1\<close> and \<open>t2\<close> less than
  \<open>2 ^ 53\<close> milliseconds apart, the elapsed days are the number of whole periods of
  86400000 milliseconds from \<open>t1\<close> to \<open>t2\<close>, rounded down; no local date is taken. When
  the start is a midnight of UTC, as a date without a time is, this is the difference
  of the two UTC calendar dates. From 2024-01-01 to 2024-01-02 it is 1.
\<close>

theorem daysBetween_whole_days:
  assumes "parse a = Some t1" and "newDate parse b = Some t2"
    and "\<bar>t2 - t1\<bar> < 2 ^ 53"
  shows "86400000 * daysBetween parse a b \<le> t2 - t1
       \<and> t2 - t1 < 86400000 * (daysBetween parse a b + 1)
       \<and> (t1 mod 86400000 = 0 \<longrightarrow> daysBetween parse a b = calendarDays 0 t1 t2)
       \<and> daysBetween parseISO ''2024-01-01'' (DateString ''2024-01-02'') = 1"
proof -
  let ?d = "(t2 - t1) div 86400000"
  have d: "daysBetween parse a b = ?d" using assms(1,2) by (rule daysBetween_valid)
  have 1: "86400000 * ?d \<le> t2 - t1" by simp
  have 2: "t2 - t1 < 86400000 * (?d + 1)"
    using pos_mod_bound [of 86400000 "t2 - t1"]
    by (simp add: algebra_simps minus_mult_div_eq_mod [symmetric])
  have 3: "t1 mod 86400000 = 0 \<longrightarrow> ?d = calendarDays 0 t1 t2"
  proof
    assume "t1 mod 86400000 = 0"
    then obtain k where k: "t1 = 86400000 * k" by (auto simp: mod_eq_0_iff_dvd)
    show "?d = calendarDays 0 t1 t2"
      unfolding calendarDays_def localDate_def k by simp
  qed
  from d 1 2 3 daysBetween_next_day show ?thesis by simp
qed

text \<open>A loan of 2024-01-01 seen at 2024-01-14T20:00:00Z: thirteen whole days.\<close>

theorem daysBetween_whole_days_witness:
  "86400000 * daysBetween parseISO ''2024-01-01'' (DateObject (Some 1705262400000))
     \<le> 1705262400000 - 1704067200000
   \<and> 1705262400000 - 1704067200000
     < 86400000 * (daysBetween parseISO ''2024-01-01'' (DateObject (Some 1705262400000)) + 1)
   \<and> daysBetween parseISO ''2024-01-01'' (DateObject (Some 1705262400000))
     = calendarDays 0 1704067200000 1705262400000
   \<and> calendarDays 0 1704067200000 1705262400000 = 13"
proof -
  have a: "parseISO ''2024-01-01'' = Some 1704067200000" by code_simp
  have b: "newDate parseISO (DateObject (Some 1705262400000)) = Some 1705262400000" by simp
  have m: "(1704067200000 :: int) mod 86400000 = 0" by simp
  have c: "calendarDays 0 1704067200000 1705262400000 = 13" by code_simp
  have n: "\<bar>1705262400000 - 1704067200000\<bar> < (2 :: int) ^ 53" by simp
  from daysBetween_whole_days [OF a b n] m c show ?thesis by blast
qed

text \<open>
  The claim as stated fails. In a zone seven hours east of UTC the instant
  2024-01-14T20:00:00Z lies on 15 January, fourteen calendar days after 1 January, and
  the function returns 13. In UTC, from 23:00 on 1 January to 01:00 on 2 January is one
  calendar day, and the function returns 0.
\<close>

theorem daysBetween_not_local_calendar:
  "parseISO ''2024-01-01'' = Some 1704067200000
   \<and> daysBetween parseISO ''2024-01-01'' (DateObject (Some 1705262400000)) = 13
   \<and> calendarDays 25200000 1704067200000 1705262400000 = 14
   \<and> parseISO ''2024-01-01T23:00:00.000Z'' = Some 1704150000000
   \<and> parseISO ''2024-01-02T01:00:00.000Z'' = Some 1704157200000
   \<and> daysBetween parseISO ''2024-01-01T23:00:00.000Z'' (DateString ''2024-01-02T01:00:00.000Z'') = 0
   \<and> calendarDays 0 1704150000000 1704157200000 = 1"
  by code_simp

section \<open>Overdue loans\<close>

lemma notReturned_iff: "returned_at b \<noteq> Some [] \<Longrightarrow> notReturned b \<longleftrightarrow> returned_at b = None"
  by (cases "returned_at b") (simp_all add: notReturned_def truthy_def)

text \<open>
  The time of return that \<^verbatim>\<open>returnBorrow\<close> stores is never the empty string, so the
  records of the application satisfy the hypothesis of the next theorem.
\<close>

lemma returnBorrow_timestamps:
  assumes "ts \<noteq> []" and "\<forall>b\<in>set borrows. returned_at b \<noteq> Some []"
  shows "\<forall>b\<in>set (fst (returnBorrow ts i borrows)). returned_at b \<noteq> Some []"
  using assms by (auto simp: returnBorrow_def)

text \<open>
  C2. Among borrow records whose time of return is \<^verbatim>\<open>null\<close> or a time stamp, a record is in
  the dashboard's overdue list exactly when its time of return is \<^verbatim>\<open>null\<close> and at least 14
  days have elapsed from its start date to the current instant, and in the list of the
  other open loans exactly when its time of return is \<^verbatim>\<open>null\<close> and fewer than 14 days
  have elapsed; a record with a time of return is never in the overdue list; and the
  overdue count is the number of records without a time of return with at least 14
  elapsed days.
\<close>

theorem overdue_classification:
  assumes "\<forall>b\<in>set borrows. returned_at b \<noteq> Some []"
  shows "(\<forall>b\<in>set borrows.
            (b \<in> set (overdue parse t (active borrows)) \<longleftrightarrow>
               returned_at b = None \<and> 14 \<le> daysSince parse t (start_date b)) \<and>
            (b \<in> set (normal parse t (active borrows)) \<longleftrightarrow>
               returned_at b = None \<and> daysSince parse t (start_date b) < 14) \<and>
            (returned_at b \<noteq> None \<longrightarrow> b \<notin> set (overdue parse t (active borrows))))
       \<and> overdueCount parse t borrows =
           length (filter (\<lambda>b. returned_at b = None \<and> 14 \<le> daysSince parse t (start_date b)) borrows)"
proof
  show "\<forall>b\<in>set borrows.
            (b \<in> set (overdue parse t (active borrows)) \<longleftrightarrow>
               returned_at b = None \<and> 14 \<le> daysSince parse t (start_date b)) \<and>
            (b \<in> set (normal parse t (active borrows)) \<longleftrightarrow>
               returned_at b = None \<and> daysSince parse t (start_date b) < 14) \<and>
            (returned_at b \<noteq> None \<longrightarrow> b \<notin> set (overdue parse t (active borrows)))"
    using assms by (auto simp: overdue_def normal_def active_def notReturned_iff)
next
  have "filter (\<lambda>b. 14 \<le> daysSince parse t (start_date b)) (filter notReturned borrows)
      = filter (\<lambda>b. returned_at b = None \<and> 14 \<le> daysSince parse t (start_date b)) borrows"
    unfolding filter_filter
    by (rule filter_cong [OF refl]) (use assms notReturned_iff in blast)
  then show "overdueCount parse t borrows =
           length (filter (\<lambda>b. returned_at b = None \<and> 14 \<le> daysSince parse t (start_date b)) borrows)"
    by (simp add: overdueCount_def active_def)
qed

text \<open>
  Of the three sample loans the one open for twenty days is overdue, the one open for
  three days is not, and the returned one, six weeks old, is not.
\<close>

theorem overdue_classification_witness:
  "sampleBorrow ''b2'' ''ICU'' ''2023-12-25'' None
     \<in> set (overdue parseISO 1705262400000 (active sampleBorrows))
   \<and> sampleBorrow ''b3'' ''ER'' ''2024-01-11'' None
     \<notin> set (overdue parseISO 1705262400000 (active sampleBorrows))
   \<and> sampleBorrow ''b1'' ''ICU'' ''2023-12-01'' (Some ''2023-12-05T09:30:00.000Z'')
     \<notin> set (overdue parseISO 1705262400000 (active sampleBorrows))
   \<and> sampleBorrow ''b3'' ''ER'' ''2024-01-11'' None
     \<in> set (normal parseISO 1705262400000 (active sampleBorrows))
   \<and> overdueCount parseISO 1705262400000 sampleBorrows = 1"
proof -
  let ?b1 = "sampleBorrow ''b1'' ''ICU'' ''2023-12-01'' (Some ''2023-12-05T09:30:00.000Z'')"
  let ?b2 = "sampleBorrow ''b2'' ''ICU'' ''2023-12-25'' None"
  let ?b3 = "sampleBorrow ''b3'' ''ER'' ''2024-01-11'' None"
  have h: "\<forall>b\<in>set sampleBorrows. returned_at b \<noteq> Some []" by code_simp
  have m: "?b1 \<in> set sampleBorrows" "?b2 \<in> set sampleBorrows" "?b3 \<in> set sampleBorrows"
    by (simp_all add: sampleBorrows_def)
  have e1: "returned_at ?b1 \<noteq> None" by (simp add: sampleBorrow_def)
  have e2: "returned_at ?b2 = None \<and> 14 \<le> daysSince parseISO 1705262400000 (start_date ?b2)"
    by code_simp
  have e3: "returned_at ?b3 = None \<and> daysSince parseISO 1705262400000 (start_date ?b3) < 14"
    by code_simp
  have e4: "length (filter (\<lambda>b. returned_at b = None \<and> 14 \<le> daysSince parseISO 1705262400000 (start_date b))
              sampleBorrows) = 1"
    by code_simp
  from overdue_classification [OF h, of parseISO 1705262400000] m e1 e2 e3 e4
  show ?thesis by auto
qed

section \<open>The report filter\<close>

lemma keeps_keepsSpec:
  assumes "parse (start_date r) \<noteq> None"
    and "from = [] \<or> parse from \<noteq> None" and "to = [] \<or> parse to \<noteq> None"
  shows "keeps parse from to department r = keepsSpec parse from to department r"
  using assms
  by (auto simp: keeps_def keepsSpec_def Let_def truthy_def dateLess_def dateAtMost_def)

text \<open>
  C4. For records whose start dates parse and bounds that parse when present, the filter
  keeps exactly the records that the specification's condition keeps: the start date is
  at or after the lower bound or there is none, at or before the upper bound or there
  is none, and the borrower's department is the selected one or none is selected.
\<close>

theorem filtered_keeps_iff:
  assumes "\<forall>r\<in>set borrows. parse (start_date r) \<noteq> None"
    and "from = [] \<or> parse from \<noteq> None" and "to = [] \<or> parse to \<noteq> None"
  shows "filtered parse borrows from to department =
         filter (keepsSpec parse from to department) borrows"
  unfolding filtered_def
  by (rule filter_cong [OF refl]) (use assms keeps_keepsSpec in blast)

text \<open>
  The sample loans from 2023-12-20 to 2024-01-31 in the department ICU: of the two ICU
  loans the one of 2023-12-25.
\<close>

theorem filtered_keeps_iff_witness:
  "filtered parseISO sampleBorrows ''2023-12-20'' ''2024-01-31'' ''ICU''
     = filter (keepsSpec parseISO ''2023-12-20'' ''2024-01-31'' ''ICU'') sampleBorrows
   \<and> filter (keepsSpec parseISO ''2023-12-20'' ''2024-01-31'' ''ICU'') sampleBorrows
     = [sampleBorrow ''b2'' ''ICU'' ''2023-12-25'' None]"
proof -
  have h: "\<forall>r\<in>set sampleBorrows. parseISO (start_date r) \<noteq> None" by code_simp
  have f: "''2023-12-20'' = [] \<or> parseISO ''2023-12-20'' \<noteq> None" by code_simp
  have t: "''2024-01-31'' = [] \<or> parseISO ''2024-01-31'' \<noteq> None" by code_simp
  have e: "filter (keepsSpec parseISO ''2023-12-20'' ''2024-01-31'' ''ICU'') sampleBorrows
     = [sampleBorrow ''b2'' ''ICU'' ''2023-12-25'' None]"
    by code_simp
  from filtered_keeps_iff [OF h f t, of "''ICU''"] e show ?thesis by blast
qed

text \<open>
  C6. With no lower bound, no upper bound and no department the filter returns every
  record in the original order; with any filter its output is a subsequence of the
  input, so the records it keeps stay in their relative order.
\<close>

theorem filtered_identity_and_order:
  "filtered parse borrows [] [] [] = borrows \<and>
   subseq (filtered parse borrows from to department) borrows"
  by (simp add: filtered_def keeps_def truthy_def)

section \<open>Exports of an empty report\<close>

text \<open>
  C7. When the filter keeps no record, the spreadsheet export writes no file and, unless
  an export is already running, changes nothing but the note, which it sets to the
  notice of an empty report; the printable export, when its window opens, produces the
  document with the single row that reports no data.
\<close>

theorem empty_export:
  assumes "filteredOf P borrows st = []"
  shows "snd (exportXLSX P lib orgName borrows st) = None
       \<and> (\<not> xlLoading st \<longrightarrow>
            fst (exportXLSX P lib orgName borrows st) = st\<lparr>xlNote := Some NoteEmpty\<rparr>)
       \<and> printPDF P True orgName reportLogo borrows st =
           Inr \<lparr>doc_logo = (if truthy reportLogo then Some reportLogo else None),
                doc_orgName = orgName, doc_stamp = toLocaleString P (now P),
                doc_body = [NoDataRow]\<rparr>"
  using assms by (simp add: exportXLSX_def printPDF_def Let_def)

text \<open>No sample loan starts on or after 2024-02-01.\<close>

theorem empty_export_witness:
  "snd (exportXLSX samplePlatform (Usable True) ''Ward 5'' sampleBorrows (sampleReport ''2024-02-01'' [] [])) = None
   \<and> fst (exportXLSX samplePlatform (Usable True) ''Ward 5'' sampleBorrows (sampleReport ''2024-02-01'' [] []))
     = (sampleReport ''2024-02-01'' [] [])\<lparr>xlNote := Some NoteEmpty\<rparr>
   \<and> printPDF samplePlatform True ''Ward 5'' [] sampleBorrows (sampleReport ''2024-02-01'' [] [])
     = Inr \<lparr>doc_logo = None, doc_orgName = ''Ward 5'', doc_stamp = ''stamp'', doc_body = [NoDataRow]\<rparr>"
proof -
  have h: "filteredOf samplePlatform sampleBorrows (sampleReport ''2024-02-01'' [] []) = []"
    by code_simp
  have l: "\<not> xlLoading (sampleReport ''2024-02-01'' [] [])" by (simp add: sampleReport_def)
  have p: "toLocaleString samplePlatform (now samplePlatform) = ''stamp''"
    by (simp add: samplePlatform_def)
  from empty_export [OF h, of "Usable True" "''Ward 5''" "[]"] l p
  show ?thesis by (simp add: truthy_def)
qed

section \<open>Quick additions to the reference lists\<close>

lemma confirmAddBrand_present:
  "trim (newBrand st) \<in> set (brands st) \<Longrightarrow> brands (confirmAddBrand st) = brands st"
  by (simp add: confirmAddBrand_def Let_def)

lemma confirmAddBrand_distinct:
  "distinct (brands st) \<Longrightarrow> distinct (brands (confirmAddBrand st))"
  by (simp add: confirmAddBrand_def Let_def)

lemma confirmAddBrand_idem:
  "brands (confirmAddBrand ((confirmAddBrand st)\<lparr>newBrand := newBrand st\<rparr>)) =
   brands (confirmAddBrand st)"
  by (simp add: confirmAddBrand_def Let_def isEditing_def)

lemma confirmAddVendor_present:
  "trim (newVendor st) \<in> set (vendors st) \<Longrightarrow> vendors (confirmAddVendor st) = vendors st"
  by (simp add: confirmAddVendor_def Let_def)

lemma confirmAddVendor_distinct:
  "distinct (vendors st) \<Longrightarrow> distinct (vendors (confirmAddVendor st))"
  by (simp add: confirmAddVendor_def Let_def)

lemma confirmAddVendor_idem:
  "vendors (confirmAddVendor ((confirmAddVendor st)\<lparr>newVendor := newVendor st\<rparr>)) =
   vendors (confirmAddVendor st)"
  by (simp add: confirmAddVendor_def Let_def isEditing_def)

lemma confirmAddDept_present:
  "trim (newDept bs) \<in> set (depts bs) \<Longrightarrow> depts (confirmAddDept bs) = depts bs"
  by (simp add: confirmAddDept_def Let_def)

lemma confirmAddDept_distinct:
  "distinct (depts bs) \<Longrightarrow> distinct (depts (confirmAddDept bs))"
  by (simp add: confirmAddDept_def Let_def)

lemma confirmAddDept_idem:
  "depts (confirmAddDept ((confirmAddDept bs)\<lparr>newDept := newDept bs\<rparr>)) =
   depts (confirmAddDept bs)"
  by (simp add: confirmAddDept_def Let_def)

lemma find_pair_None: "find (\<lambda>m. snd m = v \<and> fst m = b) ms = None \<longleftrightarrow> (b, v) \<notin> set ms"
  by (auto simp: find_None_iff)

lemma confirmAddModel_present:
  "(currentBrand st, trim (newModel st)) \<in> set (models st) \<Longrightarrow>
   models (confirmAddModel st) = models st"
  by (auto simp: confirmAddModel_def Let_def currentBrand_def find_pair_None)

lemma confirmAddModel_distinct:
  "distinct (models st) \<Longrightarrow> distinct (models (confirmAddModel st))"
  by (simp add: confirmAddModel_def Let_def find_pair_None)

lemma confirmAddModel_idem:
  "models (confirmAddModel ((confirmAddModel st)\<lparr>newModel := newModel st\<rparr>)) =
   models (confirmAddModel st)"
  by (auto simp: confirmAddModel_def Let_def currentBrand_def isEditing_def find_pair_None)

text \<open>
  C9. For each of the four reference lists (brands, models, vendors, departments): a
  quick addition of a value the list holds (for a model, of the pair of the current
  brand and the name) leaves the list unchanged; a list without duplicates has none
  after a quick addition; and typing the same value in again after a quick addition
  and confirming changes the list no further.
\<close>

theorem quick_add_deduplicates:
  "(trim (newBrand st) \<in> set (brands st) \<longrightarrow> brands (confirmAddBrand st) = brands st)
   \<and> (distinct (brands st) \<longrightarrow> distinct (brands (confirmAddBrand st)))
   \<and> brands (confirmAddBrand ((confirmAddBrand st)\<lparr>newBrand := newBrand st\<rparr>))
       = brands (confirmAddBrand st)
   \<and> ((currentBrand st, trim (newModel st)) \<in> set (models st)
        \<longrightarrow> models (confirmAddModel st) = models st)
   \<and> (distinct (models st) \<longrightarrow> distinct (models (confirmAddModel st)))
   \<and> models (confirmAddModel ((confirmAddModel st)\<lparr>newModel := newModel st\<rparr>))
       = models (confirmAddModel st)
   \<and> (trim (newVendor st) \<in> set (vendors st) \<longrightarrow> vendors (confirmAddVendor st) = vendors st)
   \<and> (distinct (vendors st) \<longrightarrow> distinct (vendors (confirmAddVendor st)))
   \<and> vendors (confirmAddVendor ((confirmAddVendor st)\<lparr>newVendor := newVendor st\<rparr>))
       = vendors (confirmAddVendor st)
   \<and> (trim (newDept bs) \<in> set (depts bs) \<longrightarrow> depts (confirmAddDept bs) = depts bs)
   \<and> (distinct (depts bs) \<longrightarrow> distinct (depts (confirmAddDept bs)))
   \<and> depts (confirmAddDept ((confirmAddDept bs)\<lparr>newDept := newDept bs\<rparr>))
       = depts (confirmAddDept bs)"
  using confirmAddBrand_present [of st] confirmAddBrand_distinct [of st] confirmAddBrand_idem [of st]
    confirmAddModel_present [of st] confirmAddModel_distinct [of st] confirmAddModel_idem [of st]
    confirmAddVendor_present [of st] confirmAddVendor_distinct [of st] confirmAddVendor_idem [of st]
    confirmAddDept_present [of bs] confirmAddDept_distinct [of bs] confirmAddDept_idem [of bs]
  by blast

text \<open>
  Each list holds one entry and the entry is typed in again, with spaces around it: the
  four lists stay as they are.
\<close>

theorem quick_add_deduplicates_witness:
  "brands (confirmAddBrand quickAdd) = [''GE'']
   \<and> distinct (brands (confirmAddBrand quickAdd))
   \<and> models (confirmAddModel quickAdd) = [(''GE'', ''X1'')]
   \<and> distinct (models (confirmAddModel quickAdd))
   \<and> vendors (confirmAddVendor quickAdd) = [''Acme'']
   \<and> distinct (vendors (confirmAddVendor quickAdd))
   \<and> depts (confirmAddDept quickAddDept) = [''ICU'']
   \<and> distinct (depts (confirmAddDept quickAddDept))"
proof -
  have b: "trim (newBrand quickAdd) \<in> set (brands quickAdd)" "distinct (brands quickAdd)"
    "brands quickAdd = [''GE'']" by code_simp+
  have m: "(currentBrand quickAdd, trim (newModel quickAdd)) \<in> set (models quickAdd)"
    "distinct (models quickAdd)" "models quickAdd = [(''GE'', ''X1'')]" by code_simp+
  have v: "trim (newVendor quickAdd) \<in> set (vendors quickAdd)" "distinct (vendors quickAdd)"
    "vendors quickAdd = [''Acme'']" by code_simp+
  have d: "trim (newDept quickAddDept) \<in> set (depts quickAddDept)" "distinct (depts quickAddDept)"
    "depts quickAddDept = [''ICU'']" by code_simp+
  from quick_add_deduplicates [of quickAdd quickAddDept] b m v d
  show ?thesis by simp
qed

section \<open>Updates of borrow records\<close>

lemma map_if_absent: "i \<notin> f ` set xs \<Longrightarrow> map (\<lambda>b. if f b = i then g b else b) xs = xs"
  by (induction xs) auto

text \<open>
  C10. When no borrow record has the id, \<^verbatim>\<open>updateBorrow\<close> and \<^verbatim>\<open>returnBorrow\<close> report
  \<^verbatim>\<open>true\<close> and return the collection unchanged. For every id both report \<^verbatim>\<open>true\<close>, keep the
  number of records, and leave every record with another id as it was, at its position.
\<close>

theorem borrow_updates_frame:
  "(i \<notin> set (map b_id borrows) \<longrightarrow>
      updateBorrow i patch borrows = (borrows, True) \<and> returnBorrow ts i borrows = (borrows, True))
   \<and> snd (updateBorrow i patch borrows) = True \<and> snd (returnBorrow ts i borrows) = True
   \<and> length (fst (updateBorrow i patch borrows)) = length borrows
   \<and> length (fst (returnBorrow ts i borrows)) = length borrows
   \<and> (\<forall>k < length borrows. b_id (borrows ! k) \<noteq> i \<longrightarrow>
        fst (updateBorrow i patch borrows) ! k = borrows ! k \<and>
        fst (returnBorrow ts i borrows) ! k = borrows ! k)"
  by (simp add: updateBorrow_def returnBorrow_def map_if_absent)

text \<open>
  No sample loan has the id \<open>b9\<close>. The loan \<open>b2\<close> is second of three: returning it, or
  renaming its borrower, leaves the first loan as it was.
\<close>

theorem borrow_updates_frame_witness:
  "updateBorrow ''b9'' renameBorrower sampleBorrows = (sampleBorrows, True)
   \<and> returnBorrow ''2024-01-14T20:00:00.000Z'' ''b9'' sampleBorrows = (sampleBorrows, True)
   \<and> fst (updateBorrow ''b2'' renameBorrower sampleBorrows) ! 0 = sampleBorrows ! 0
   \<and> fst (returnBorrow ''2024-01-14T20:00:00.000Z'' ''b2'' sampleBorrows) ! 0 = sampleBorrows ! 0
   \<and> map returned_at (fst (returnBorrow ''2024-01-14T20:00:00.000Z'' ''b2'' sampleBorrows))
     = [None, Some ''2024-01-14T20:00:00.000Z'', Some ''2023-12-05T09:30:00.000Z'']"
proof -
  have a: "''b9'' \<notin> set (map b_id sampleBorrows)" by code_simp
  have k: "(0::nat) < length sampleBorrows" "b_id (sampleBorrows ! 0) \<noteq> ''b2''" by code_simp+
  have e: "map returned_at (fst (returnBorrow ''2024-01-14T20:00:00.000Z'' ''b2'' sampleBorrows))
     = [None, Some ''2024-01-14T20:00:00.000Z'', Some ''2023-12-05T09:30:00.000Z'']"
    by code_simp
  from borrow_updates_frame [of "''b9''" sampleBorrows renameBorrower "''2024-01-14T20:00:00.000Z''"] a
  have 1: "updateBorrow ''b9'' renameBorrower sampleBorrows = (sampleBorrows, True)
   \<and> returnBorrow ''2024-01-14T20:00:00.000Z'' ''b9'' sampleBorrows = (sampleBorrows, True)"
    by blast
  from borrow_updates_frame [of "''b2''" sampleBorrows renameBorrower "''2024-01-14T20:00:00.000Z''"] k
  have 2: "fst (updateBorrow ''b2'' renameBorrower sampleBorrows) ! 0 = sampleBorrows ! 0
   \<and> fst (returnBorrow ''2024-01-14T20:00:00.000Z'' ''b2'' sampleBorrows) ! 0 = sampleBorrows ! 0"
    by blast
  from 1 2 e show ?thesis by blast
qed

end
